theory Spec2Isabelle
  imports Main
begin

section \<open>Python string operations used by the handlers\<close>

text \<open>
  Python strings are modelled as \<open>string\<close>; a character stands for the code point of
  the same number (the Latin-1 range). \<open>isspace\<close> is \<open>str.isspace\<close> on that range,
  which is also what \<open>str.strip()\<close> removes and what \<open>\s\<close> matches in \<open>re\<close>.
\<close>

definition isspace :: "char \<Rightarrow> bool" where
  "isspace c =
     (let n = (of_char c :: nat)
      in (9 \<le> n \<and> n \<le> 13) \<or> (28 \<le> n \<and> n \<le> 32) \<or> n = 133 \<or> n = 160)"

definition strip :: "string \<Rightarrow> string" where
  "strip s = rev (dropWhile isspace (rev (dropWhile isspace s)))"

definition lower_char :: "char \<Rightarrow> char" where
  "lower_char c =
     (let n = (of_char c :: nat)
      in if (65 \<le> n \<and> n \<le> 90) \<or> (192 \<le> n \<and> n \<le> 222 \<and> n \<noteq> 215)
         then char_of (n + 32) else c)"

definition lower :: "string \<Rightarrow> string" where
  "lower s = map lower_char s"

fun startswith :: "string \<Rightarrow> string \<Rightarrow> bool" where
  "startswith [] ys = True"
| "startswith (x # xs) [] = False"
| "startswith (x # xs) (y # ys) = (x = y \<and> startswith xs ys)"

text \<open>\<open>str_contains needle hay\<close> is Python's \<open>needle in hay\<close> on strings.\<close>

fun str_contains :: "string \<Rightarrow> string \<Rightarrow> bool" where
  "str_contains xs [] = (xs = [])"
| "str_contains xs (y # ys) = (startswith xs (y # ys) \<or> str_contains xs ys)"

text \<open>
  \<open>re.sub(r'@AI\s*', '', user_message, flags=re.IGNORECASE)\<close>: scanning from the
  left, every occurrence of the token (in any letter case) is dropped together with
  the whitespace that follows it.
\<close>

function remove_mention :: "string \<Rightarrow> string" where
  "remove_mention [] = []"
| "remove_mention (c # cs) =
     (if startswith ''@ai'' (lower (c # cs))
      then remove_mention (dropWhile isspace (drop 2 cs))
      else c # remove_mention cs)"
  by pat_completeness auto
termination
proof (relation "measure length")
  fix c :: char and cs :: string
  have "length (dropWhile isspace (drop 2 cs)) \<le> length (drop 2 cs)"
    by (rule length_dropWhile_le)
  then show "(dropWhile isspace (drop 2 cs), c # cs) \<in> measure length"
    by simp
qed simp_all

section \<open>Values, documents and the store\<close>

text \<open>Values that arrive in an event payload: what \<open>json.loads\<close> can return.\<close>

datatype json =
    JNull
  | JBool bool
  | JNum int
  | JStr string
  | JArr "json list"
  | JObj "(string \<times> json) list"

text \<open>Python truthiness, as tested by \<open>if not room_id\<close>.\<close>

fun truthy :: "json \<Rightarrow> bool" where
  "truthy JNull = False"
| "truthy (JBool b) = b"
| "truthy (JNum n) = (n \<noteq> 0)"
| "truthy (JStr s) = (s \<noteq> [])"
| "truthy (JArr xs) = (xs \<noteq> [])"
| "truthy (JObj kvs) = (kvs \<noteq> [])"

type_synonym oid = nat
type_synonym sid = string

record user =
  user_id :: oid
  username :: string

record room =
  room_oid :: oid
  name :: string
  owner_username :: string
  participant_usernames :: "string list"

record message =
  msg_id :: oid
  room_id :: oid
  sender_username :: string
  msg_text :: string
  created_at :: int

text \<open>
  The three collections. \<open>next_id\<close> stands for the generation of a fresh \<open>_id\<close>
  at every insert.
\<close>

record db =
  users :: "user list"
  rooms :: "room list"
  messages :: "message list"
  next_id :: oid

datatype exn = DuplicateKeyError | AttributeError | RecursionError | ValueError | TypeError

record message_response =
  resp_id :: oid
  resp_room_id :: json
  resp_sender_username :: string
  resp_text :: string
  resp_created_at :: int

datatype payload =
    ErrorPayload string
  | RoomPayload json
  | MessagePayload message_response

datatype target = ToSid sid | ToRoom json

text \<open>What a handler does to the outside, in the order it does it.\<close>

datatype effect =
    FindUser string
  | InsertUser string
  | FindRoom oid
  | InsertMessage message
  | GenerateContent string
  | Emit string payload target

text \<open>
  The module state: the dictionary \<open>sid_to_username\<close>, the rooms of the Socket.IO
  server as the handlers' calls of \<open>enter_room\<close> and \<open>leave_room\<close> change them, and
  the database. What the server does by itself when a connection closes is not in this
  code; it is modelled apart, as \<open>purge\<close> below.
\<close>

record state =
  sid_to_username :: "sid \<rightharpoonup> string"
  sio_rooms :: "json \<Rightarrow> sid set"
  database :: db

text \<open>
  What \<open>json.loads\<close> does with a string: it returns a value, or raises
  \<open>JSONDecodeError\<close>, or raises something else (\<open>RecursionError\<close> on deep nesting,
  a plain \<open>ValueError\<close> on an integer literal of more than 4300 digits).
\<close>

datatype loads = Loaded json | JSONDecodeError | Raised exn

text \<open>
  What the handlers call and do not define: the standard library's \<open>parse_qs\<close> and
  \<open>json.loads\<close>, the \<open>ObjectId\<close> constructor (\<open>None\<close> is any exception it raises),
  the generation service (\<open>None\<close> is any exception raised by \<open>generate_content\<close> or
  by reading \<open>response.text\<close>) and the wall clock (\<open>utcnow env k\<close> is the value of
  the \<open>k\<close>-th call of \<open>datetime.utcnow()\<close> in a handler run).
\<close>

record env =
  parse_qs :: "string \<Rightarrow> (string \<rightharpoonup> string list)"
  json_loads :: "string \<Rightarrow> loads"
  ObjectId :: "json \<Rightarrow> oid option"
  generate_content :: "string \<Rightarrow> string option"
  utcnow :: "nat \<Rightarrow> int"

record 'a outcome =
  result :: "exn + 'a"
  final :: state
  effects :: "effect list"

section \<open>database.py\<close>

definition find_user :: "db \<Rightarrow> string \<Rightarrow> user option" where
  "find_user d uname = find (\<lambda>u. username u = uname) (users d)"

text \<open>\<open>insert_one\<close> on \<open>users\<close>, under the unique index on \<open>username\<close>.\<close>

definition insert_user :: "db \<Rightarrow> string \<Rightarrow> exn + (user \<times> db)" where
  "insert_user d uname =
     (if find_user d uname \<noteq> None then Inl DuplicateKeyError
      else let u = \<lparr>user_id = next_id d, username = uname\<rparr>
           in Inr (u, d\<lparr>users := users d @ [u], next_id := Suc (next_id d)\<rparr>))"

definition find_room :: "db \<Rightarrow> oid \<Rightarrow> room option" where
  "find_room d r = find (\<lambda>x. room_oid x = r) (rooms d)"

definition insert_message :: "db \<Rightarrow> oid \<Rightarrow> string \<Rightarrow> string \<Rightarrow> int \<Rightarrow> message \<times> db" where
  "insert_message d r sender txt ts =
     (let m = \<lparr>msg_id = next_id d, room_id = r, sender_username = sender,
                msg_text = txt, created_at = ts\<rparr>
      in (m, d\<lparr>messages := messages d @ [m], next_id := Suc (next_id d)\<rparr>))"

text \<open>
  \<open>get_or_create_user\<close> awaits the lookup and then the insert. \<open>others\<close> is what the
  tasks that ran while it was suspended between the two did to the store.
\<close>

definition get_or_create_user ::
    "(db \<Rightarrow> db) \<Rightarrow> string \<Rightarrow> db \<Rightarrow> (exn + user) \<times> db \<times> effect list" where
  "get_or_create_user others uname d =
     (case find_user d uname of
        Some u \<Rightarrow> (Inr u, d, [FindUser uname])
      | None \<Rightarrow>
          (case insert_user (others d) uname of
             Inl e \<Rightarrow> (Inl e, others d, [FindUser uname, InsertUser uname])
           | Inr (u, d') \<Rightarrow> (Inr u, d', [FindUser uname, InsertUser uname])))"

section \<open>sockets.py\<close>

definition fallback_text :: string where
  "fallback_text = ''Sorry, I couldn't process that request.''"

definition ai_prompt :: "string \<Rightarrow> string \<Rightarrow> string" where
  "ai_prompt room_name query =
     ''You are a helpful AI assistant in a chat room called '' @ [CHR 0x22] @ room_name
     @ [CHR 0x22] @ ''.'' @ [CHR 0x0A] @ ''A user is asking: '' @ query
     @ [CHR 0x0A, CHR 0x0A]
     @ ''Give a concise, helpful response. Keep it brief and to the point.''"

definition get_ai_response :: "env \<Rightarrow> string \<Rightarrow> string \<Rightarrow> string \<times> effect list" where
  "get_ai_response env room_name user_message =
     (let query = strip (remove_mention user_message);
          prompt = ai_prompt room_name query
      in (case generate_content env prompt of
            Some txt \<Rightarrow> strip txt
          | None \<Rightarrow> fallback_text,
          [GenerateContent prompt]))"

definition get_username_from_query :: "env \<Rightarrow> (string \<rightharpoonup> string) \<Rightarrow> string option" where
  "get_username_from_query env environ =
     (let query_string = (case environ ''QUERY_STRING'' of Some q \<Rightarrow> q | None \<Rightarrow> []);
          params = parse_qs env query_string;
          usernames = (case params ''username'' of Some us \<Rightarrow> us | None \<Rightarrow> [])
      in case usernames of u # _ \<Rightarrow> Some (strip u) | [] \<Rightarrow> None)"

definition connect ::
    "env \<Rightarrow> (db \<Rightarrow> db) \<Rightarrow> sid \<Rightarrow> (string \<rightharpoonup> string) \<Rightarrow> state \<Rightarrow> bool outcome" where
  "connect env others sid environ s =
     (case get_username_from_query env environ of
        None \<Rightarrow> \<lparr>result = Inr False, final = s, effects = []\<rparr>
      | Some uname \<Rightarrow>
          if uname = [] then \<lparr>result = Inr False, final = s, effects = []\<rparr>
          else (case get_or_create_user others uname (database s) of
                  (Inl e, d, fx) \<Rightarrow>
                    \<lparr>result = Inl e, final = s\<lparr>database := d\<rparr>, effects = fx\<rparr>
                | (Inr u, d, fx) \<Rightarrow>
                    \<lparr>result = Inr True,
                     final = s\<lparr>database := d,
                               sid_to_username := (sid_to_username s)(sid \<mapsto> uname)\<rparr>,
                     effects = fx\<rparr>))"

definition disconnect :: "sid \<Rightarrow> state \<Rightarrow> unit outcome" where
  "disconnect sid s =
     \<lparr>result = Inr (),
      final = s\<lparr>sid_to_username := (sid_to_username s)(sid := None)\<rparr>,
      effects = []\<rparr>"

text \<open>
  The first lines of every event handler: a string payload is parsed as JSON, and
  \<open>except json.JSONDecodeError\<close> turns that one exception into the empty dict. Any
  other exception of \<open>json.loads\<close> leaves the handler.
\<close>

definition parse_payload :: "env \<Rightarrow> json \<Rightarrow> exn + json" where
  "parse_payload env data =
     (case data of
        JStr str \<Rightarrow>
          (case json_loads env str of
             Loaded v \<Rightarrow> Inr v
           | JSONDecodeError \<Rightarrow> Inr (JObj [])
           | Raised e \<Rightarrow> Inl e)
      | _ \<Rightarrow> Inr data)"

text \<open>\<open>data.get("room_id") if isinstance(data, dict) else None\<close>\<close>

definition get_room_id :: "json \<Rightarrow> json" where
  "get_room_id data =
     (case data of
        JObj kvs \<Rightarrow> (case map_of kvs ''room_id'' of Some v \<Rightarrow> v | None \<Rightarrow> JNull)
      | _ \<Rightarrow> JNull)"

text \<open>
  \<open>(data.get("text", "") if isinstance(data, dict) else "").strip()\<close>: a value that
  is not a string has no \<open>strip\<close>.
\<close>

definition get_text :: "json \<Rightarrow> exn + string" where
  "get_text data =
     (case (case data of
              JObj kvs \<Rightarrow> (case map_of kvs ''text'' of Some v \<Rightarrow> v | None \<Rightarrow> JStr [])
            | _ \<Rightarrow> JStr []) of
        JStr t \<Rightarrow> Inr (strip t)
      | _ \<Rightarrow> Inl AttributeError)"

definition emit_error :: "sid \<Rightarrow> string \<Rightarrow> state \<Rightarrow> effect list \<Rightarrow> unit outcome" where
  "emit_error sid msg s fx =
     \<lparr>result = Inr (), final = s,
      effects = fx @ [Emit ''error'' (ErrorPayload msg) (ToSid sid)]\<rparr>"

definition join_room :: "env \<Rightarrow> sid \<Rightarrow> json \<Rightarrow> state \<Rightarrow> unit outcome" where
  "join_room env sid data0 s =
     (case parse_payload env data0 of
        Inl e \<Rightarrow> \<lparr>result = Inl e, final = s, effects = []\<rparr>
      | Inr data \<Rightarrow>
     let rid = get_room_id data
      in case sid_to_username s sid of
           None \<Rightarrow> emit_error sid ''Not authenticated'' s []
         | Some uname \<Rightarrow>
             if uname = [] then emit_error sid ''Not authenticated'' s []
             else if \<not> truthy rid then emit_error sid ''room_id is required'' s []
             else (case ObjectId env rid of
                     None \<Rightarrow> emit_error sid ''Invalid room_id format'' s []
                   | Some r \<Rightarrow>
                       (case find_room (database s) r of
                          None \<Rightarrow> emit_error sid ''Room not found'' s [FindRoom r]
                        | Some rm \<Rightarrow>
                            if uname \<notin> set (participant_usernames rm)
                            then emit_error sid ''Not a participant of this room'' s
                                   [FindRoom r]
                            else
                              \<lparr>result = Inr (),
                               final = s\<lparr>sio_rooms :=
                                          (sio_rooms s)(rid := insert sid (sio_rooms s rid))\<rparr>,
                               effects = [FindRoom r,
                                          Emit ''joined_room'' (RoomPayload rid) (ToSid sid)]\<rparr>)))"

text \<open>
  \<open>sio.leave_room(sid, room_id)\<close> looks the room up in a dict: a list or a dict as
  \<open>room_id\<close> is unhashable and the lookup raises \<open>TypeError\<close>. (In \<open>join_room\<close> and
  \<open>send_message\<close> the room id has gone through \<open>ObjectId\<close> before it names a room.)
\<close>

fun hashable :: "json \<Rightarrow> bool" where
  "hashable (JArr xs) = False"
| "hashable (JObj kvs) = False"
| "hashable _ = True"

definition leave_room :: "env \<Rightarrow> sid \<Rightarrow> json \<Rightarrow> state \<Rightarrow> unit outcome" where
  "leave_room env sid data0 s =
     (case parse_payload env data0 of
        Inl e \<Rightarrow> \<lparr>result = Inl e, final = s, effects = []\<rparr>
      | Inr data \<Rightarrow>
     let rid = get_room_id data
      in case sid_to_username s sid of
           None \<Rightarrow> emit_error sid ''Not authenticated'' s []
         | Some uname \<Rightarrow>
             if uname = [] then emit_error sid ''Not authenticated'' s []
             else if \<not> truthy rid then emit_error sid ''room_id is required'' s []
             else if \<not> hashable rid
             then \<lparr>result = Inl TypeError, final = s, effects = []\<rparr>
             else
               \<lparr>result = Inr (),
                final = s\<lparr>sio_rooms := (sio_rooms s)(rid := sio_rooms s rid - {sid})\<rparr>,
                effects = [Emit ''left_room'' (RoomPayload rid) (ToSid sid)]\<rparr>)"

definition send_message :: "env \<Rightarrow> sid \<Rightarrow> json \<Rightarrow> state \<Rightarrow> unit outcome" where
  "send_message env sid data0 s =
     (case parse_payload env data0 of
        Inl e \<Rightarrow> \<lparr>result = Inl e, final = s, effects = []\<rparr>
      | Inr data \<Rightarrow>
     let rid = get_room_id data
      in case get_text data of
           Inl e \<Rightarrow> \<lparr>result = Inl e, final = s, effects = []\<rparr>
         | Inr txt \<Rightarrow>
        (case sid_to_username s sid of
           None \<Rightarrow> emit_error sid ''Not authenticated'' s []
         | Some uname \<Rightarrow>
             if uname = [] then emit_error sid ''Not authenticated'' s []
             else if \<not> truthy rid then emit_error sid ''room_id is required'' s []
             else if txt = [] then emit_error sid ''text cannot be empty'' s []
             else (case ObjectId env rid of
                     None \<Rightarrow> emit_error sid ''Invalid room_id format'' s []
                   | Some r \<Rightarrow>
                       (case find_room (database s) r of
                          None \<Rightarrow> emit_error sid ''Room not found'' s [FindRoom r]
                        | Some rm \<Rightarrow>
                            if uname \<notin> set (participant_usernames rm)
                            then emit_error sid ''Not a participant of this room'' s
                                   [FindRoom r]
                            else
                              (let now = utcnow env 0;
                                   (m, d1) = insert_message (database s) r uname txt now;
                                   message_response =
                                     \<lparr>resp_id = msg_id m, resp_room_id = rid,
                                      resp_sender_username = uname, resp_text = txt,
                                      resp_created_at = now\<rparr>;
                                   fx1 = [FindRoom r, InsertMessage m,
                                          Emit ''new_message''
                                            (MessagePayload message_response) (ToRoom rid)]
                               in if str_contains ''@ai'' (lower txt)
                                  then
                                    (let (ai_response_text, gfx) =
                                           get_ai_response env (name rm) txt;
                                         ai_now = utcnow env 1;
                                         (am, d2) =
                                           insert_message d1 r ''AI'' ai_response_text ai_now;
                                         ai_message_response =
                                           \<lparr>resp_id = msg_id am, resp_room_id = rid,
                                            resp_sender_username = ''AI'',
                                            resp_text = ai_response_text,
                                            resp_created_at = ai_now\<rparr>
                                     in \<lparr>result = Inr (),
                                         final = s\<lparr>database := d2\<rparr>,
                                         effects = fx1 @ gfx @
                                           [InsertMessage am,
                                            Emit ''new_message''
                                              (MessagePayload ai_message_response)
                                              (ToRoom rid)]\<rparr>)
                                  else \<lparr>result = Inr (), final = s\<lparr>database := d1\<rparr>,
                                        effects = fx1\<rparr>)))))"

fun is_broadcast :: "effect \<Rightarrow> bool" where
  "is_broadcast (Emit ev p (ToRoom r)) = True"
| "is_broadcast _ = False"

fun is_generate :: "effect \<Rightarrow> bool" where
  "is_generate (GenerateContent p) = True"
| "is_generate _ = False"

section \<open>The server's side: closing a connection, delivering a broadcast\<close>

text \<open>
  Modelled from the spec: the removal of a closed connection from every room. The
  Socket.IO server (python-socketio, which is not part of this repository) does it after
  it has run the \<open>disconnect\<close> handler; no code under \<open>src/\<close> does. The specification has
  it as \<open>purge(handle)\<close>: "removes handle from all groups - called by Session Registry on
  disconnect".
\<close>

definition purge :: "sid \<Rightarrow> state \<Rightarrow> state" where
  "purge sid s = s\<lparr>sio_rooms := (\<lambda>r. sio_rooms s r - {sid})\<rparr>"

text \<open>
  Modelled from the spec: \<open>on_disconnect(connection)\<close>, what happens when a connection
  closes. The server runs the handler \<open>disconnect\<close> of this code, then purges the
  handle from its rooms.
\<close>

definition on_disconnect :: "sid \<Rightarrow> state \<Rightarrow> unit outcome" where
  "on_disconnect sid s =
     (let out = disconnect sid s in out\<lparr>final := purge sid (final out)\<rparr>)"

text \<open>
  Modelled from the spec: \<open>broadcast(room_id, event)\<close> "delivers event to every handle
  currently in the group"; an emit to one connection goes to that connection.
\<close>

fun delivered_to :: "state \<Rightarrow> effect \<Rightarrow> sid set" where
  "delivered_to s (Emit ev p (ToSid c)) = {c}"
| "delivered_to s (Emit ev p (ToRoom r)) = sio_rooms s r"
| "delivered_to s _ = {}"

text \<open>
  Events handled one after another, each handler run to its end before the next one
  starts; every event comes with the environment it runs in.
\<close>

datatype event =
    Connect sid "string \<rightharpoonup> string" "db \<Rightarrow> db"
  | Disconnect sid
  | JoinRoom sid json
  | LeaveRoom sid json
  | SendMessage sid json

fun step :: "env \<Rightarrow> event \<Rightarrow> state \<Rightarrow> state" where
  "step env (Connect c environ others) s = final (connect env others c environ s)"
| "step env (Disconnect c) s = final (on_disconnect c s)"
| "step env (JoinRoom c data) s = final (join_room env c data s)"
| "step env (LeaveRoom c data) s = final (leave_room env c data s)"
| "step env (SendMessage c data) s = final (send_message env c data s)"

fun run :: "(env \<times> event) list \<Rightarrow> state \<Rightarrow> state" where
  "run [] s = s"
| "run ((env, ev) # evs) s = run evs (step env ev s)"

fun connects :: "sid \<Rightarrow> event \<Rightarrow> bool" where
  "connects sid (Connect c environ others) = (c = sid)"
| "connects sid _ = False"

section \<open>Conditions on requests, in the words of the specification\<close>

text \<open>
  The connection request carries no username: the parameter is absent from the query
  string, or its first value is empty after trimming.
\<close>

definition carries_no_username :: "env \<Rightarrow> (string \<rightharpoonup> string) \<Rightarrow> bool" where
  "carries_no_username env environ =
     (case parse_qs env (case environ ''QUERY_STRING'' of Some q \<Rightarrow> q | None \<Rightarrow> [])
             ''username'' of
        None \<Rightarrow> True
      | Some [] \<Rightarrow> True
      | Some (u # us) \<Rightarrow> strip u = [])"


section \<open>A concrete environment and state\<close>

definition example_room_id :: json where
  "example_room_id = JStr ''65a1f0c2b3d4e5f60718293a''"

text \<open>A string of 2000 opening brackets: \<open>json.loads\<close> gives up with \<open>RecursionError\<close>.\<close>

definition deep_payload :: string where
  "deep_payload = replicate 2000 (CHR ''['')"

definition example_env :: env where
  "example_env =
     \<lparr>parse_qs = (\<lambda>q. if q = ''username=teja'' then [''username'' \<mapsto> [''teja'']]
                      else if q = ''username=%20%20'' then [''username'' \<mapsto> [''  '']]
                      else Map.empty),
      json_loads = (\<lambda>str. if str = ''[1, 2]'' then Loaded (JArr [JNum 1, JNum 2])
                          else if str = deep_payload then Raised RecursionError
                          else JSONDecodeError),
      ObjectId = (\<lambda>v. if v = example_room_id then Some 7 else None),
      generate_content = (\<lambda>p. Some ''It is noon. Ask @AI again.''),
      utcnow = (\<lambda>k. 1000 + int k)\<rparr>"

definition example_db :: db where
  "example_db =
     \<lparr>users = [\<lparr>user_id = 1, username = ''teja''\<rparr>, \<lparr>user_id = 2, username = ''mallory''\<rparr>],
      rooms = [\<lparr>room_oid = 7, name = ''general'', owner_username = ''teja'',
                participant_usernames = [''teja'']\<rparr>],
      messages = [],
      next_id = 8\<rparr>"

definition example_state :: state where
  "example_state =
     \<lparr>sid_to_username = [''sid1'' \<mapsto> ''teja'', ''sid2'' \<mapsto> ''mallory''],
      sio_rooms = (\<lambda>r. {}),
      database = example_db\<rparr>"

text \<open>
  Another task's whole call of \<open>get_or_create_user\<close> for the same username, run
  while this one is suspended.
\<close>

definition racing_call :: "string \<Rightarrow> db \<Rightarrow> db" where
  "racing_call uname d = fst (snd (get_or_create_user id uname d))"

text \<open>
  Variants of the environment: a generation service that raises, one that answers with
  blanks only, and a wall clock that is set back between two readings.
\<close>

definition failing_env :: env where
  "failing_env = example_env\<lparr>generate_content := (\<lambda>p. None)\<rparr>"

definition blank_reply_env :: env where
  "blank_reply_env = example_env\<lparr>generate_content := (\<lambda>p. Some ''   '')\<rparr>"

definition stepped_back_env :: env where
  "stepped_back_env = example_env\<lparr>utcnow := (\<lambda>k. 1000 - int k)\<rparr>"

definition example_send :: json where
  "example_send =
     JObj [(''room_id'', example_room_id), (''text'', JStr ''hello @AI what time is it'')]"

section \<open>Auxiliary facts\<close>

lemmas example_defs = example_room_id_def example_env_def example_db_def example_state_def

lemma startswith_iff: "startswith xs ys \<longleftrightarrow> (\<exists>q. ys = xs @ q)"
  by (induction xs ys rule: startswith.induct) auto

lemma str_contains_iff: "str_contains xs ys \<longleftrightarrow> (\<exists>p q. ys = p @ xs @ q)"
proof (induction ys)
  case Nil
  then show ?case by auto
next
  case (Cons y ys)
  show ?case
  proof
    assume "str_contains xs (y # ys)"
    then consider "startswith xs (y # ys)" | "str_contains xs ys" by auto
    then show "\<exists>p q. y # ys = p @ xs @ q"
    proof cases
      case 1
      then obtain q where "y # ys = xs @ q" unfolding startswith_iff by blast
      then have "y # ys = [] @ xs @ q" by simp
      then show ?thesis by blast
    next
      case 2
      with Cons obtain p q where "ys = p @ xs @ q" by blast
      then have "y # ys = (y # p) @ xs @ q" by simp
      then show ?thesis by blast
    qed
  next
    assume "\<exists>p q. y # ys = p @ xs @ q"
    then obtain p q where pq: "y # ys = p @ xs @ q" by blast
    show "str_contains xs (y # ys)"
    proof (cases p)
      case Nil
      with pq have "startswith xs (y # ys)" unfolding startswith_iff by auto
      then show ?thesis by simp
    next
      case (Cons a p')
      with pq have "ys = p' @ xs @ q" by simp
      with Cons.IH have "str_contains xs ys" by blast
      then show ?thesis by simp
    qed
  qed
qed

lemma find_snoc: "find P xs = None \<Longrightarrow> P x \<Longrightarrow> find P (xs @ [x]) = Some x"
  by (induction xs) (auto split: if_splits)

lemma find_user_after_insert:
  "find_user d uname = None \<Longrightarrow>
   find_user (d\<lparr>users := users d @ [\<lparr>user_id = i, username = uname\<rparr>], next_id := n\<rparr>) uname
     = Some \<lparr>user_id = i, username = uname\<rparr>"
  unfolding find_user_def by (simp add: find_snoc)

lemma example_env_simps:
  "json_loads example_env str =
     (if str = ''[1, 2]'' then Loaded (JArr [JNum 1, JNum 2])
      else if str = deep_payload then Raised RecursionError
      else JSONDecodeError)"
  "ObjectId example_env v = (if v = example_room_id then Some 7 else None)"
  "generate_content example_env p = Some ''It is noon. Ask @AI again.''"
  "utcnow example_env k = 1000 + int k"
  by (simp_all add: example_env_def)

lemma example_strings:
  "lower ''hello @AI what time is it'' = ''hello @ai what time is it''"
  "lower ''write to bob@AIrline'' = ''write to bob@airline''"
  "lower ''hello there'' = ''hello there''"
  "remove_mention ''hello @AI what time is it'' = ''hello what time is it''"
  "strip ''hello @AI what time is it'' = ''hello @AI what time is it''"
  "strip ''write to bob@AIrline'' = ''write to bob@AIrline''"
  "strip ''hello there'' = ''hello there''"
  "strip ''hello what time is it'' = ''hello what time is it''"
  "strip ''It is noon. Ask @AI again.'' = ''It is noon. Ask @AI again.''"
  "strip ''   '' = []"
  by code_simp+

lemma variant_env_simps:
  "ObjectId failing_env v = (if v = example_room_id then Some 7 else None)"
  "generate_content failing_env p = None"
  "utcnow failing_env k = 1000 + int k"
  "ObjectId blank_reply_env v = (if v = example_room_id then Some 7 else None)"
  "generate_content blank_reply_env p = Some ''   ''"
  "utcnow blank_reply_env k = 1000 + int k"
  "ObjectId stepped_back_env v = (if v = example_room_id then Some 7 else None)"
  "generate_content stepped_back_env p = Some ''It is noon. Ask @AI again.''"
  "utcnow stepped_back_env k = 1000 - int k"
  by (simp_all add: failing_env_def blank_reply_env_def stepped_back_env_def example_env_def)

lemma more_strings:
  "lower ''It is noon. Ask @AI again.'' = ''it is noon. ask @ai again.''"
  by code_simp

lemmas example_send_simps =
  example_env_simps variant_env_simps example_strings example_room_id_def example_db_def
  example_state_def example_send_def send_message_def get_text_def parse_payload_def
  get_room_id_def find_room_def insert_message_def get_ai_response_def emit_error_def Let_def

text \<open>No run of \<open>send_message\<close> calls the generation service twice.\<close>

lemma generate_at_most_once:
  "length (filter is_generate (effects (send_message env sid data s))) \<le> 1"
  by (simp add: send_message_def emit_error_def get_ai_response_def insert_message_def Let_def
        split: sum.splits option.splits prod.splits)

text \<open>The outcome of a send that passes every check.\<close>

lemma send_message_accepted:
  assumes "sid_to_username s sid = Some uname" and "uname \<noteq> []"
    and "parse_payload env data = Inr pd"
    and "truthy (get_room_id pd)"
    and "get_text pd = Inr txt" and "txt \<noteq> []"
    and "ObjectId env (get_room_id pd) = Some r"
    and "find_room (database s) r = Some rm"
    and "uname \<in> set (participant_usernames rm)"
  shows "send_message env sid data s =
    (let rid = get_room_id pd;
         ins = insert_message (database s) r uname txt (utcnow env 0);
         fx1 = [FindRoom r, InsertMessage (fst ins),
                Emit ''new_message''
                  (MessagePayload \<lparr>resp_id = msg_id (fst ins), resp_room_id = rid,
                     resp_sender_username = uname, resp_text = txt,
                     resp_created_at = utcnow env 0\<rparr>) (ToRoom rid)]
     in if str_contains ''@ai'' (lower txt)
        then let reply = get_ai_response env (name rm) txt;
                 ains = insert_message (snd ins) r ''AI'' (fst reply) (utcnow env 1)
             in \<lparr>result = Inr (), final = s\<lparr>database := snd ains\<rparr>,
                 effects = fx1 @ snd reply @
                   [InsertMessage (fst ains),
                    Emit ''new_message''
                      (MessagePayload \<lparr>resp_id = msg_id (fst ains), resp_room_id = rid,
                         resp_sender_username = ''AI'', resp_text = fst reply,
                         resp_created_at = utcnow env 1\<rparr>) (ToRoom rid)]\<rparr>
        else \<lparr>result = Inr (), final = s\<lparr>database := snd ins\<rparr>, effects = fx1\<rparr>)"
  using assms by (simp add: send_message_def Let_def split: prod.splits)


text \<open>What each handler leaves alone in the session table and in the rooms.\<close>

lemma send_message_frame:
  "sid_to_username (final (send_message env c data s)) = sid_to_username s
   \<and> sio_rooms (final (send_message env c data s)) = sio_rooms s"
  by (simp add: send_message_def emit_error_def get_ai_response_def insert_message_def Let_def
        split: sum.splits option.splits prod.splits)

lemma join_room_frame:
  "sid_to_username (final (join_room env c data s)) = sid_to_username s
   \<and> sio_rooms (final (join_room env c data s)) r \<subseteq> insert c (sio_rooms s r)
   \<and> (sid_to_username s c = None \<longrightarrow> final (join_room env c data s) = s)"
  by (auto simp add: join_room_def emit_error_def Let_def
        split: sum.splits option.splits if_splits)

lemma leave_room_frame:
  "sid_to_username (final (leave_room env c data s)) = sid_to_username s
   \<and> sio_rooms (final (leave_room env c data s)) r \<subseteq> sio_rooms s r"
  by (auto simp add: leave_room_def emit_error_def Let_def
        split: sum.splits option.splits if_splits)

lemma connect_frame:
  "sio_rooms (final (connect env others c environ s)) = sio_rooms s
   \<and> (c \<noteq> sid \<longrightarrow>
        sid_to_username (final (connect env others c environ s)) sid = sid_to_username s sid)"
  by (auto simp add: connect_def Let_def split: sum.splits option.splits prod.splits)

lemma on_disconnect_frame:
  "sio_rooms (final (on_disconnect c s)) r = sio_rooms s r - {c}
   \<and> sid_to_username (final (on_disconnect c s)) = (sid_to_username s)(c := None)"
  by (simp add: on_disconnect_def disconnect_def purge_def Let_def)

text \<open>
  A handle with no session and in no room stays so, whatever event comes next, unless
  the handle itself connects.
\<close>

lemma step_keeps_closed:
  assumes "sid_to_username s sid = None" and "\<forall>r. sid \<notin> sio_rooms s r"
    and "\<not> connects sid ev"
  shows "sid_to_username (step env ev s) sid = None \<and> (\<forall>r. sid \<notin> sio_rooms (step env ev s) r)"
proof (cases ev)
  case (Connect c environ others)
  with assms(3) have "c \<noteq> sid" by simp
  with assms(1,2) Connect show ?thesis
    using connect_frame [of env others c environ s sid] by simp
next
  case (Disconnect c)
  with assms(1,2) show ?thesis
    by (simp add: on_disconnect_frame)
next
  case (JoinRoom c data)
  show ?thesis
  proof (cases "c = sid")
    case True
    with assms(1) have "final (join_room env c data s) = s"
      using join_room_frame [of env c data s] by simp
    with assms(1,2) JoinRoom show ?thesis by simp
  next
    case False
    have "\<And>r. sid \<notin> sio_rooms (final (join_room env c data s)) r"
    proof
      fix r
      assume "sid \<in> sio_rooms (final (join_room env c data s)) r"
      then have "sid \<in> insert c (sio_rooms s r)"
        using join_room_frame [of env c data s r] by blast
      with False assms(2) show False by simp
    qed
    with assms(1) JoinRoom show ?thesis
      using join_room_frame [of env c data s] by simp
  qed
next
  case (LeaveRoom c data)
  have "\<And>r. sid \<notin> sio_rooms (final (leave_room env c data s)) r"
    using leave_room_frame [of env c data s] assms(2) by blast
  with assms(1) LeaveRoom show ?thesis
    using leave_room_frame [of env c data s] by simp
next
  case (SendMessage c data)
  with assms(1,2) show ?thesis
    by (simp add: send_message_frame)
qed

lemma run_keeps_closed:
  "sid_to_username s sid = None \<Longrightarrow> \<forall>r. sid \<notin> sio_rooms s r \<Longrightarrow>
   list_all (\<lambda>x. \<not> connects sid (snd x)) evs \<Longrightarrow>
   sid_to_username (run evs s) sid = None \<and> (\<forall>r. sid \<notin> sio_rooms (run evs s) r)"
proof (induction evs arbitrary: s)
  case Nil
  then show ?case by simp
next
  case (Cons x evs)
  obtain env ev where x: "x = (env, ev)" by (cases x)
  from Cons.prems(3) x have ev: "\<not> connects sid ev"
    and rest: "list_all (\<lambda>x. \<not> connects sid (snd x)) evs" by simp_all
  from step_keeps_closed [OF Cons.prems(1,2) ev]
  have "sid_to_username (step env ev s) sid = None"
    and "\<forall>r. sid \<notin> sio_rooms (step env ev s) r" by simp_all
  from Cons.IH [OF this rest] x show ?case by simp
qed

section \<open>Resolving a username\<close>

text \<open>
  C1, as the code has it. \<open>get_or_create_user\<close> returns the stored user when the lookup
  finds one. When the lookup finds none and the username is still absent at the insert,
  it stores a new user with that username and returns it, and a later lookup finds that
  user. When the lookup finds none and another task has created the username before the
  insert, the insert fails on the unique index and there is no second lookup: the
  \<open>DuplicateKeyError\<close> is the result of the call.
\<close>

theorem get_or_create_user_cases:
  "(find_user d uname = Some u \<longrightarrow>
      get_or_create_user others uname d = (Inr u, d, [FindUser uname]))
   \<and> (find_user d uname = None \<and> find_user (others d) uname = None \<longrightarrow>
        (\<exists>u' d'. get_or_create_user others uname d
                    = (Inr u', d', [FindUser uname, InsertUser uname])
                \<and> username u' = uname \<and> find_user d' uname = Some u'))
   \<and> (find_user d uname = None \<and> find_user (others d) uname \<noteq> None \<longrightarrow>
        get_or_create_user others uname d
          = (Inl DuplicateKeyError, others d, [FindUser uname, InsertUser uname]))"
proof (intro conjI impI)
  assume "find_user d uname = Some u"
  then show "get_or_create_user others uname d = (Inr u, d, [FindUser uname])"
    by (simp add: get_or_create_user_def)
next
  assume absent: "find_user d uname = None \<and> find_user (others d) uname = None"
  let ?u = "\<lparr>user_id = next_id (others d), username = uname\<rparr>"
  let ?d = "(others d)\<lparr>users := users (others d) @ [?u],
                         next_id := Suc (next_id (others d))\<rparr>"
  from absent have "get_or_create_user others uname d
                      = (Inr ?u, ?d, [FindUser uname, InsertUser uname])"
    by (simp add: get_or_create_user_def insert_user_def Let_def)
  moreover from absent have "find_user ?d uname = Some ?u"
    by (simp add: find_user_after_insert)
  ultimately show "\<exists>u' d'. get_or_create_user others uname d
                    = (Inr u', d', [FindUser uname, InsertUser uname])
                \<and> username u' = uname \<and> find_user d' uname = Some u'"
    by (intro exI [of _ ?u] exI [of _ ?d]) simp
next
  assume raced: "find_user d uname = None \<and> find_user (others d) uname \<noteq> None"
  then show "get_or_create_user others uname d
          = (Inl DuplicateKeyError, others d, [FindUser uname, InsertUser uname])"
    by (simp add: get_or_create_user_def insert_user_def)
qed

theorem get_or_create_user_cases_witness:
  "find_user example_db ''teja'' = Some \<lparr>user_id = 1, username = ''teja''\<rparr>
   \<and> get_or_create_user id ''teja'' example_db
       = (Inr \<lparr>user_id = 1, username = ''teja''\<rparr>, example_db, [FindUser ''teja''])
   \<and> find_user example_db ''asha'' = None
   \<and> fst (get_or_create_user id ''asha'' example_db)
       = Inr \<lparr>user_id = 8, username = ''asha''\<rparr>
   \<and> find_user (fst (snd (get_or_create_user id ''asha'' example_db))) ''asha''
       = Some \<lparr>user_id = 8, username = ''asha''\<rparr>
   \<and> find_user (racing_call ''asha'' example_db) ''asha''
       = Some \<lparr>user_id = 8, username = ''asha''\<rparr>
   \<and> fst (get_or_create_user (racing_call ''asha'') ''asha'' example_db)
       = Inl DuplicateKeyError"
  using get_or_create_user_cases
          [of example_db "''teja''" "\<lparr>user_id = 1, username = ''teja''\<rparr>" id]
        get_or_create_user_cases
          [of example_db "''asha''" "\<lparr>user_id = 8, username = ''asha''\<rparr>" id]
        get_or_create_user_cases
          [of example_db "''asha''" "\<lparr>user_id = 8, username = ''asha''\<rparr>"
              "racing_call ''asha''"]
  by (simp add: example_defs racing_call_def find_user_def get_or_create_user_def
        insert_user_def Let_def)

text \<open>
  C1 as stated fails. Two calls for the new username \<open>asha\<close>: the first looks it up and
  finds nothing, the second runs from lookup to insert, then the first inserts. The first
  call ends in \<open>DuplicateKeyError\<close>; the user the second one created is in the store, and
  the first call does not return it.
\<close>

theorem get_or_create_user_race_counterexample:
  "find_user example_db ''asha'' = None
   \<and> get_or_create_user (racing_call ''asha'') ''asha'' example_db
       = (Inl DuplicateKeyError,
          example_db\<lparr>users := users example_db @ [\<lparr>user_id = 8, username = ''asha''\<rparr>],
                      next_id := 9\<rparr>,
          [FindUser ''asha'', InsertUser ''asha''])"
  by (simp add: example_defs racing_call_def find_user_def get_or_create_user_def
        insert_user_def Let_def)

section \<open>Connecting\<close>

text \<open>
  C2. A connection request whose query string carries no username (the parameter is
  absent, or empty after trimming) is rejected: \<open>connect\<close> returns \<open>False\<close>, it has
  made no call to the store (no effect at all), and the state is the one it started
  from, so no session is registered for the connection handle.
\<close>

theorem connect_without_username_rejected:
  assumes "carries_no_username env environ"
  shows "connect env others sid environ s = \<lparr>result = Inr False, final = s, effects = []\<rparr>"
  using assms
  by (auto simp add: carries_no_username_def connect_def get_username_from_query_def Let_def
           split: option.splits list.splits)

theorem connect_without_username_rejected_witness:
  "carries_no_username example_env [''QUERY_STRING'' \<mapsto> ''username=%20%20'']
   \<and> connect example_env id ''sid9'' [''QUERY_STRING'' \<mapsto> ''username=%20%20''] example_state
       = \<lparr>result = Inr False, final = example_state, effects = []\<rparr>
   \<and> sid_to_username example_state ''sid9'' = None"
  using connect_without_username_rejected
    [where env = example_env and environ = "[''QUERY_STRING'' \<mapsto> ''username=%20%20'']"
       and others = id and sid = "''sid9''" and s = example_state]
  by (simp add: carries_no_username_def example_defs strip_def isspace_def)

section \<open>Sending: the checks\<close>

text \<open>
  C3, as the code has it. A send from a connection with a session whose text is empty
  after trimming is answered by one \<open>error\<close> event to the sender and nothing else: no
  message is stored, nothing is broadcast, the state is unchanged. The error is
  \<open>text cannot be empty\<close> when the payload has a room id; \<open>room_id\<close> is tested before
  the text, so without a room id the error is \<open>room_id is required\<close>.
\<close>

theorem send_message_empty_text_rejected:
  assumes "sid_to_username s sid = Some uname" and "uname \<noteq> []"
    and "parse_payload env data = Inr pd"
    and "get_text pd = Inr []"
  shows "send_message env sid data s =
           \<lparr>result = Inr (), final = s,
            effects = [Emit ''error''
                         (ErrorPayload (if truthy (get_room_id pd)
                                        then ''text cannot be empty''
                                        else ''room_id is required''))
                         (ToSid sid)]\<rparr>"
  using assms by (simp add: send_message_def emit_error_def Let_def)

theorem send_message_empty_text_rejected_witness:
  "sid_to_username example_state ''sid1'' = Some ''teja''
   \<and> parse_payload example_env
         (JObj [(''room_id'', example_room_id), (''text'', JStr ''   '')])
       = Inr (JObj [(''room_id'', example_room_id), (''text'', JStr ''   '')])
   \<and> get_text (JObj [(''room_id'', example_room_id), (''text'', JStr ''   '')]) = Inr []
   \<and> send_message example_env ''sid1''
         (JObj [(''room_id'', example_room_id), (''text'', JStr ''   '')]) example_state
       = \<lparr>result = Inr (), final = example_state,
          effects = [Emit ''error'' (ErrorPayload ''text cannot be empty'') (ToSid ''sid1'')]\<rparr>"
  using send_message_empty_text_rejected
          [of example_state "''sid1''" "''teja''" example_env
              "JObj [(''room_id'', example_room_id), (''text'', JStr ''   '')]"
              "JObj [(''room_id'', example_room_id), (''text'', JStr ''   '')]"]
  by (simp add: example_defs example_strings get_text_def parse_payload_def get_room_id_def)

text \<open>
  C3 as stated fails for a send with whitespace-only text and no room id: the error
  reported to the sender is \<open>room_id is required\<close>, not the empty-text one.
\<close>

theorem send_message_empty_text_counterexample:
  "sid_to_username example_state ''sid1'' = Some ''teja''
   \<and> parse_payload example_env (JObj [(''text'', JStr ''   '')])
       = Inr (JObj [(''text'', JStr ''   '')])
   \<and> get_text (JObj [(''text'', JStr ''   '')]) = Inr []
   \<and> send_message example_env ''sid1'' (JObj [(''text'', JStr ''   '')]) example_state
       = \<lparr>result = Inr (), final = example_state,
          effects = [Emit ''error'' (ErrorPayload ''room_id is required'') (ToSid ''sid1'')]\<rparr>
   \<and> effects (send_message example_env ''sid1'' (JObj [(''text'', JStr ''   '')])
                example_state)
       \<noteq> [Emit ''error'' (ErrorPayload ''text cannot be empty'') (ToSid ''sid1'')]"
  by (simp add: example_defs example_strings send_message_def emit_error_def get_text_def
        parse_payload_def get_room_id_def Let_def)

text \<open>
  C4, as the code has it. A send with a non-empty text from a user who is not in the
  participant list of the room document that the store holds now is answered by the
  \<open>Not a participant of this room\<close> error, sent to the originating connection only;
  no message is stored, nothing is broadcast, the state is unchanged. The room is read
  from the store in this very call (\<open>FindRoom\<close>), whatever state the call starts from:
  nothing is remembered from an earlier call.
\<close>

theorem send_message_non_participant_rejected:
  assumes "sid_to_username s sid = Some uname" and "uname \<noteq> []"
    and "parse_payload env data = Inr pd"
    and "truthy (get_room_id pd)"
    and "get_text pd = Inr txt" and "txt \<noteq> []"
    and "ObjectId env (get_room_id pd) = Some r"
    and "find_room (database s) r = Some rm"
    and "uname \<notin> set (participant_usernames rm)"
  shows "send_message env sid data s =
           \<lparr>result = Inr (), final = s,
            effects = [FindRoom r,
                       Emit ''error'' (ErrorPayload ''Not a participant of this room'')
                         (ToSid sid)]\<rparr>"
  using assms by (simp add: send_message_def emit_error_def Let_def)

theorem send_message_non_participant_rejected_witness:
  "sid_to_username example_state ''sid2'' = Some ''mallory''
   \<and> find_room (database example_state) 7
       = Some \<lparr>room_oid = 7, name = ''general'', owner_username = ''teja'',
                participant_usernames = [''teja'']\<rparr>
   \<and> send_message example_env ''sid2''
         (JObj [(''room_id'', example_room_id), (''text'', JStr ''hello there'')])
         example_state
       = \<lparr>result = Inr (), final = example_state,
          effects = [FindRoom 7,
                     Emit ''error'' (ErrorPayload ''Not a participant of this room'')
                       (ToSid ''sid2'')]\<rparr>"
  using send_message_non_participant_rejected
          [of example_state "''sid2''" "''mallory''" example_env
              "JObj [(''room_id'', example_room_id), (''text'', JStr ''hello there'')]"
              "JObj [(''room_id'', example_room_id), (''text'', JStr ''hello there'')]"
              "''hello there''" 7
              "\<lparr>room_oid = 7, name = ''general'', owner_username = ''teja'',
                participant_usernames = [''teja'']\<rparr>"]
  by (simp add: example_defs example_strings get_text_def parse_payload_def get_room_id_def
        find_room_def)

text \<open>
  C4 as stated fails for a send by a non-participant whose text is whitespace only:
  the text is tested before the room is looked up, and the error is the empty-text one.
\<close>

theorem send_message_non_participant_counterexample:
  "sid_to_username example_state ''sid2'' = Some ''mallory''
   \<and> find_room (database example_state) 7
       = Some \<lparr>room_oid = 7, name = ''general'', owner_username = ''teja'',
                participant_usernames = [''teja'']\<rparr>
   \<and> send_message example_env ''sid2''
         (JObj [(''room_id'', example_room_id), (''text'', JStr ''   '')]) example_state
       = \<lparr>result = Inr (), final = example_state,
          effects = [Emit ''error'' (ErrorPayload ''text cannot be empty'') (ToSid ''sid2'')]\<rparr>"
  by (simp add: example_defs example_strings send_message_def emit_error_def get_text_def
        parse_payload_def get_room_id_def Let_def find_room_def)

section \<open>Sending: the assistant\<close>

text \<open>
  C5. For a send that passes every check (a session, a room id, a non-empty trimmed
  text, a room that exists and lists the sender), the generation service is called if
  and only if the lowercased text has \<open>@ai\<close> somewhere inside it, wherever that is. When
  it has not, the send ends without error and has stored exactly one message, the
  sender's.
\<close>

theorem mention_dispatch_iff:
  assumes "sid_to_username s sid = Some uname" and "uname \<noteq> []"
    and "parse_payload env data = Inr pd"
    and "truthy (get_room_id pd)"
    and "get_text pd = Inr txt" and "txt \<noteq> []"
    and "ObjectId env (get_room_id pd) = Some r"
    and "find_room (database s) r = Some rm"
    and "uname \<in> set (participant_usernames rm)"
  shows "list_ex is_generate (effects (send_message env sid data s))
           = (\<exists>p q. lower txt = p @ ''@ai'' @ q)
         \<and> ((\<nexists>p q. lower txt = p @ ''@ai'' @ q) \<longrightarrow>
              result (send_message env sid data s) = Inr ()
              \<and> messages (database (final (send_message env sid data s)))
                  = messages (database s) @
                    [\<lparr>msg_id = next_id (database s), room_id = r, sender_username = uname,
                      msg_text = txt, created_at = utcnow env 0\<rparr>])"
  using send_message_accepted [OF assms]
  by (simp add: Let_def str_contains_iff get_ai_response_def insert_message_def)

theorem mention_dispatch_iff_witness:
  "list_ex is_generate
     (effects (send_message example_env ''sid1''
        (JObj [(''room_id'', example_room_id), (''text'', JStr ''write to bob@AIrline'')])
        example_state))
   \<and> lower ''write to bob@AIrline'' = ''write to bob'' @ ''@ai'' @ ''rline''
   \<and> \<not> list_ex is_generate
     (effects (send_message example_env ''sid1''
        (JObj [(''room_id'', example_room_id), (''text'', JStr ''hello there'')])
        example_state))
   \<and> messages (database (final (send_message example_env ''sid1''
        (JObj [(''room_id'', example_room_id), (''text'', JStr ''hello there'')])
        example_state)))
      = [\<lparr>msg_id = 8, room_id = 7, sender_username = ''teja'', msg_text = ''hello there'',
          created_at = 1000\<rparr>]"
  using mention_dispatch_iff
          [of example_state "''sid1''" "''teja''" example_env
              "JObj [(''room_id'', example_room_id), (''text'', JStr ''write to bob@AIrline'')]"
              "JObj [(''room_id'', example_room_id), (''text'', JStr ''write to bob@AIrline'')]"
              "''write to bob@AIrline''" 7
              "\<lparr>room_oid = 7, name = ''general'', owner_username = ''teja'',
                participant_usernames = [''teja'']\<rparr>"]
        mention_dispatch_iff
          [of example_state "''sid1''" "''teja''" example_env
              "JObj [(''room_id'', example_room_id), (''text'', JStr ''hello there'')]"
              "JObj [(''room_id'', example_room_id), (''text'', JStr ''hello there'')]"
              "''hello there''" 7
              "\<lparr>room_oid = 7, name = ''general'', owner_username = ''teja'',
                participant_usernames = [''teja'']\<rparr>"]
  by (simp add: example_env_simps example_strings example_room_id_def example_db_def
        example_state_def send_message_def get_text_def parse_payload_def get_room_id_def
        find_room_def insert_message_def get_ai_response_def emit_error_def Let_def
        del: remove_mention.simps)

text \<open>
  C6. No run of \<open>send_message\<close> calls the generation service more than once. On a
  send that passes every check and mentions the assistant, the reply is stored as the
  last message, with sender \<open>AI\<close>, and broadcast to the room as the last effect. The
  reply is stored whatever it is (nothing tests that it is non-empty, that \<open>AI\<close> is a
  participant, or whether it contains the mention token itself): it goes through
  none of the checks and starts no second call of the service.
\<close>

theorem assistant_reply_not_recursive:
  "length (filter is_generate (effects (send_message env sid data s))) \<le> 1
   \<and> (sid_to_username s sid = Some uname \<and> uname \<noteq> []
      \<and> parse_payload env data = Inr pd
      \<and> truthy (get_room_id pd)
      \<and> get_text pd = Inr txt \<and> txt \<noteq> []
      \<and> ObjectId env (get_room_id pd) = Some r
      \<and> find_room (database s) r = Some rm
      \<and> uname \<in> set (participant_usernames rm)
      \<and> str_contains ''@ai'' (lower txt) \<longrightarrow>
        result (send_message env sid data s) = Inr ()
        \<and> messages (database (final (send_message env sid data s)))
            = messages (database s) @
              [\<lparr>msg_id = next_id (database s), room_id = r, sender_username = uname,
                msg_text = txt, created_at = utcnow env 0\<rparr>,
               \<lparr>msg_id = Suc (next_id (database s)), room_id = r, sender_username = ''AI'',
                msg_text = fst (get_ai_response env (name rm) txt),
                created_at = utcnow env 1\<rparr>]
        \<and> last (effects (send_message env sid data s))
            = Emit ''new_message''
                (MessagePayload
                   \<lparr>resp_id = Suc (next_id (database s)),
                    resp_room_id = get_room_id pd,
                    resp_sender_username = ''AI'',
                    resp_text = fst (get_ai_response env (name rm) txt),
                    resp_created_at = utcnow env 1\<rparr>)
                (ToRoom (get_room_id pd)))"
proof (intro conjI impI)
  show "length (filter is_generate (effects (send_message env sid data s))) \<le> 1"
    by (rule generate_at_most_once)
next
  assume a: "sid_to_username s sid = Some uname \<and> uname \<noteq> []
      \<and> parse_payload env data = Inr pd
      \<and> truthy (get_room_id pd)
      \<and> get_text pd = Inr txt \<and> txt \<noteq> []
      \<and> ObjectId env (get_room_id pd) = Some r
      \<and> find_room (database s) r = Some rm
      \<and> uname \<in> set (participant_usernames rm)
      \<and> str_contains ''@ai'' (lower txt)"
  then have eq: "send_message env sid data s =
    (let rid = get_room_id pd;
         ins = insert_message (database s) r uname txt (utcnow env 0);
         fx1 = [FindRoom r, InsertMessage (fst ins),
                Emit ''new_message''
                  (MessagePayload \<lparr>resp_id = msg_id (fst ins), resp_room_id = rid,
                     resp_sender_username = uname, resp_text = txt,
                     resp_created_at = utcnow env 0\<rparr>) (ToRoom rid)];
         reply = get_ai_response env (name rm) txt;
         ains = insert_message (snd ins) r ''AI'' (fst reply) (utcnow env 1)
     in \<lparr>result = Inr (), final = s\<lparr>database := snd ains\<rparr>,
         effects = fx1 @ snd reply @
           [InsertMessage (fst ains),
            Emit ''new_message''
              (MessagePayload \<lparr>resp_id = msg_id (fst ains), resp_room_id = rid,
                 resp_sender_username = ''AI'', resp_text = fst reply,
                 resp_created_at = utcnow env 1\<rparr>) (ToRoom rid)]\<rparr>)"
    using send_message_accepted [of s sid uname env data pd "txt" r rm] by (simp add: Let_def)
  show "result (send_message env sid data s) = Inr ()"
    unfolding eq by (simp add: Let_def)
  show "messages (database (final (send_message env sid data s)))
            = messages (database s) @
              [\<lparr>msg_id = next_id (database s), room_id = r, sender_username = uname,
                msg_text = txt, created_at = utcnow env 0\<rparr>,
               \<lparr>msg_id = Suc (next_id (database s)), room_id = r, sender_username = ''AI'',
                msg_text = fst (get_ai_response env (name rm) txt),
                created_at = utcnow env 1\<rparr>]"
    unfolding eq by (simp add: Let_def insert_message_def)
  show "last (effects (send_message env sid data s))
            = Emit ''new_message''
                (MessagePayload
                   \<lparr>resp_id = Suc (next_id (database s)),
                    resp_room_id = get_room_id pd,
                    resp_sender_username = ''AI'',
                    resp_text = fst (get_ai_response env (name rm) txt),
                    resp_created_at = utcnow env 1\<rparr>)
                (ToRoom (get_room_id pd))"
    unfolding eq by (simp add: Let_def insert_message_def)
qed

theorem assistant_reply_not_recursive_witness:
  "fst (get_ai_response example_env ''general'' ''hello @AI what time is it'')
     = ''It is noon. Ask @AI again.''
   \<and> str_contains ''@ai'' (lower ''It is noon. Ask @AI again.'')
   \<and> ''AI'' \<notin> set (participant_usernames
                      \<lparr>room_oid = 7, name = ''general'', owner_username = ''teja'',
                       participant_usernames = [''teja'']\<rparr>)
   \<and> length (filter is_generate
               (effects (send_message example_env ''sid1'' example_send example_state))) = 1
   \<and> messages (database (final (send_message example_env ''sid1'' example_send example_state)))
       = [\<lparr>msg_id = 8, room_id = 7, sender_username = ''teja'',
           msg_text = ''hello @AI what time is it'', created_at = 1000\<rparr>,
          \<lparr>msg_id = 9, room_id = 7, sender_username = ''AI'',
           msg_text = ''It is noon. Ask @AI again.'', created_at = 1001\<rparr>]"
  using assistant_reply_not_recursive
          [of example_env "''sid1''" example_send example_state "''teja''" example_send
              "''hello @AI what time is it''" 7
              "\<lparr>room_oid = 7, name = ''general'', owner_username = ''teja'',
                participant_usernames = [''teja'']\<rparr>"]
  by (simp add: example_send_simps more_strings del: remove_mention.simps)

text \<open>
  C7, as the code has it. When the generation service fails with an exception on a send
  that mentions the assistant, the reply text is the fixed fallback string; the send
  ends without error, the sender's message is stored as before, and the fallback is
  stored and broadcast as an ordinary message of \<open>AI\<close>.
\<close>

theorem generation_failure_gives_fallback:
  assumes "sid_to_username s sid = Some uname" and "uname \<noteq> []"
    and "parse_payload env data = Inr pd"
    and "truthy (get_room_id pd)"
    and "get_text pd = Inr txt" and "txt \<noteq> []"
    and "ObjectId env (get_room_id pd) = Some r"
    and "find_room (database s) r = Some rm"
    and "uname \<in> set (participant_usernames rm)"
    and "str_contains ''@ai'' (lower txt)"
    and "generate_content env (ai_prompt (name rm) (strip (remove_mention txt))) = None"
  shows "fst (get_ai_response env (name rm) txt) = fallback_text
         \<and> result (send_message env sid data s) = Inr ()
         \<and> messages (database (final (send_message env sid data s)))
             = messages (database s) @
               [\<lparr>msg_id = next_id (database s), room_id = r, sender_username = uname,
                 msg_text = txt, created_at = utcnow env 0\<rparr>,
                \<lparr>msg_id = Suc (next_id (database s)), room_id = r, sender_username = ''AI'',
                 msg_text = fallback_text, created_at = utcnow env 1\<rparr>]
         \<and> last (effects (send_message env sid data s))
             = Emit ''new_message''
                 (MessagePayload
                    \<lparr>resp_id = Suc (next_id (database s)),
                     resp_room_id = get_room_id pd,
                     resp_sender_username = ''AI'',
                     resp_text = fallback_text,
                     resp_created_at = utcnow env 1\<rparr>)
                 (ToRoom (get_room_id pd))"
proof -
  have reply: "get_ai_response env (name rm) txt
                 = (fallback_text,
                    [GenerateContent (ai_prompt (name rm) (strip (remove_mention txt)))])"
    using assms(11) by (simp add: get_ai_response_def Let_def)
  have "send_message env sid data s =
    \<lparr>result = Inr (),
     final = s\<lparr>database :=
       snd (insert_message (snd (insert_message (database s) r uname txt (utcnow env 0)))
              r ''AI'' fallback_text (utcnow env 1))\<rparr>,
     effects =
       [FindRoom r,
        InsertMessage (fst (insert_message (database s) r uname txt (utcnow env 0))),
        Emit ''new_message''
          (MessagePayload
             \<lparr>resp_id = msg_id (fst (insert_message (database s) r uname txt (utcnow env 0))),
              resp_room_id = get_room_id pd,
              resp_sender_username = uname, resp_text = txt,
              resp_created_at = utcnow env 0\<rparr>)
          (ToRoom (get_room_id pd)),
        GenerateContent (ai_prompt (name rm) (strip (remove_mention txt))),
        InsertMessage
          (fst (insert_message (snd (insert_message (database s) r uname txt (utcnow env 0)))
                  r ''AI'' fallback_text (utcnow env 1))),
        Emit ''new_message''
          (MessagePayload
             \<lparr>resp_id = msg_id
                (fst (insert_message
                        (snd (insert_message (database s) r uname txt (utcnow env 0)))
                        r ''AI'' fallback_text (utcnow env 1))),
              resp_room_id = get_room_id pd,
              resp_sender_username = ''AI'', resp_text = fallback_text,
              resp_created_at = utcnow env 1\<rparr>)
          (ToRoom (get_room_id pd))]\<rparr>"
    using send_message_accepted [OF assms(1-9)] assms(10) by (simp add: Let_def reply)
  then show ?thesis
    by (simp add: reply insert_message_def Let_def)
qed

theorem generation_failure_gives_fallback_witness:
  "str_contains ''@ai'' (lower ''hello @AI what time is it'')
   \<and> generate_content failing_env (ai_prompt ''general'' ''hello what time is it'') = None
   \<and> result (send_message failing_env ''sid1'' example_send example_state) = Inr ()
   \<and> messages (database (final (send_message failing_env ''sid1'' example_send example_state)))
       = [\<lparr>msg_id = 8, room_id = 7, sender_username = ''teja'',
           msg_text = ''hello @AI what time is it'', created_at = 1000\<rparr>,
          \<lparr>msg_id = 9, room_id = 7, sender_username = ''AI'',
           msg_text = ''Sorry, I couldn't process that request.'', created_at = 1001\<rparr>]"
  using generation_failure_gives_fallback
          [of example_state "''sid1''" "''teja''" failing_env example_send example_send
              "''hello @AI what time is it''" 7
              "\<lparr>room_oid = 7, name = ''general'', owner_username = ''teja'',
                participant_usernames = [''teja'']\<rparr>"]
  by (simp add: example_send_simps fallback_text_def del: remove_mention.simps)

text \<open>
  C7 as stated fails for an empty result: when the service answers without raising and
  the text of the answer is blank, the reply is the empty string, not the fallback, and
  a message of \<open>AI\<close> with an empty text is stored.
\<close>

theorem empty_generation_result_counterexample:
  "generate_content blank_reply_env (ai_prompt ''general'' ''hello what time is it'')
     = Some ''   ''
   \<and> fst (get_ai_response blank_reply_env ''general'' ''hello @AI what time is it'') = []
   \<and> fallback_text \<noteq> []
   \<and> messages (database (final (send_message blank_reply_env ''sid1'' example_send
                                   example_state)))
       = [\<lparr>msg_id = 8, room_id = 7, sender_username = ''teja'',
           msg_text = ''hello @AI what time is it'', created_at = 1000\<rparr>,
          \<lparr>msg_id = 9, room_id = 7, sender_username = ''AI'',
           msg_text = [], created_at = 1001\<rparr>]"
  by (simp add: example_send_simps fallback_text_def del: remove_mention.simps)

text \<open>
  C8, as the code has it. On a send that passes every check and mentions the assistant,
  the sender's message is stored and broadcast first, then the service is called, then
  the message of \<open>AI\<close> is stored and broadcast to the same room. The two timestamps are
  the first and the second reading of the wall clock in the run, so the assistant's is
  the later one exactly when the clock has advanced between the two readings.
\<close>

theorem assistant_reply_after_user_message:
  assumes "sid_to_username s sid = Some uname" and "uname \<noteq> []"
    and "parse_payload env data = Inr pd"
    and "truthy (get_room_id pd)"
    and "get_text pd = Inr txt" and "txt \<noteq> []"
    and "ObjectId env (get_room_id pd) = Some r"
    and "find_room (database s) r = Some rm"
    and "uname \<in> set (participant_usernames rm)"
    and "str_contains ''@ai'' (lower txt)"
  shows "\<exists>m am prompt.
           effects (send_message env sid data s)
             = [FindRoom r,
                InsertMessage m,
                Emit ''new_message''
                  (MessagePayload
                     \<lparr>resp_id = msg_id m,
                      resp_room_id = get_room_id pd,
                      resp_sender_username = uname, resp_text = txt,
                      resp_created_at = utcnow env 0\<rparr>)
                  (ToRoom (get_room_id pd)),
                GenerateContent prompt,
                InsertMessage am,
                Emit ''new_message''
                  (MessagePayload
                     \<lparr>resp_id = msg_id am,
                      resp_room_id = get_room_id pd,
                      resp_sender_username = ''AI'', resp_text = msg_text am,
                      resp_created_at = utcnow env 1\<rparr>)
                  (ToRoom (get_room_id pd))]
           \<and> messages (database (final (send_message env sid data s)))
               = messages (database s) @ [m, am]
           \<and> sender_username m = uname \<and> msg_text m = txt
           \<and> created_at m = utcnow env 0
           \<and> sender_username am = ''AI''
           \<and> created_at am = utcnow env 1
           \<and> (created_at m < created_at am) = (utcnow env 0 < utcnow env 1)"
proof -
  let ?m = "\<lparr>msg_id = next_id (database s), room_id = r, sender_username = uname,
             msg_text = txt, created_at = utcnow env 0\<rparr>"
  let ?am = "\<lparr>msg_id = Suc (next_id (database s)), room_id = r, sender_username = ''AI'',
              msg_text = fst (get_ai_response env (name rm) txt),
              created_at = utcnow env 1\<rparr>"
  let ?prompt = "ai_prompt (name rm) (strip (remove_mention txt))"
  have fx: "snd (get_ai_response env (name rm) txt) = [GenerateContent ?prompt]"
    by (simp add: get_ai_response_def Let_def)
  have "effects (send_message env sid data s)
             = [FindRoom r,
                InsertMessage ?m,
                Emit ''new_message''
                  (MessagePayload
                     \<lparr>resp_id = msg_id ?m,
                      resp_room_id = get_room_id pd,
                      resp_sender_username = uname, resp_text = txt,
                      resp_created_at = utcnow env 0\<rparr>)
                  (ToRoom (get_room_id pd)),
                GenerateContent ?prompt,
                InsertMessage ?am,
                Emit ''new_message''
                  (MessagePayload
                     \<lparr>resp_id = msg_id ?am,
                      resp_room_id = get_room_id pd,
                      resp_sender_username = ''AI'', resp_text = msg_text ?am,
                      resp_created_at = utcnow env 1\<rparr>)
                  (ToRoom (get_room_id pd))]"
    using send_message_accepted [OF assms(1-9)] assms(10)
    by (simp add: Let_def insert_message_def fx)
  moreover have "messages (database (final (send_message env sid data s)))
               = messages (database s) @ [?m, ?am]"
    using send_message_accepted [OF assms(1-9)] assms(10)
    by (simp add: Let_def insert_message_def)
  ultimately show ?thesis
    by (intro exI [of _ ?m] exI [of _ ?am] exI [of _ ?prompt]) simp
qed

theorem assistant_reply_after_user_message_witness:
  "str_contains ''@ai'' (lower ''hello @AI what time is it'')
   \<and> map is_broadcast (effects (send_message example_env ''sid1'' example_send example_state))
       = [False, False, True, False, False, True]
   \<and> messages (database (final (send_message example_env ''sid1'' example_send example_state)))
       = [\<lparr>msg_id = 8, room_id = 7, sender_username = ''teja'',
           msg_text = ''hello @AI what time is it'', created_at = 1000\<rparr>,
          \<lparr>msg_id = 9, room_id = 7, sender_username = ''AI'',
           msg_text = ''It is noon. Ask @AI again.'', created_at = 1001\<rparr>]"
  using assistant_reply_after_user_message
          [of example_state "''sid1''" "''teja''" example_env example_send example_send
              "''hello @AI what time is it''" 7
              "\<lparr>room_oid = 7, name = ''general'', owner_username = ''teja'',
                participant_usernames = [''teja'']\<rparr>"]
  by (simp add: example_send_simps del: remove_mention.simps)

text \<open>
  C8 as stated fails on the timestamps: \<open>datetime.utcnow()\<close> reads the system clock,
  nothing in the handler compares the two readings, and when the clock is set back in
  between, the assistant's message carries the earlier timestamp.
\<close>

theorem assistant_timestamp_counterexample:
  "utcnow stepped_back_env 0 = 1000 \<and> utcnow stepped_back_env 1 = 999
   \<and> messages (database (final (send_message stepped_back_env ''sid1'' example_send
                                   example_state)))
       = [\<lparr>msg_id = 8, room_id = 7, sender_username = ''teja'',
           msg_text = ''hello @AI what time is it'', created_at = 1000\<rparr>,
          \<lparr>msg_id = 9, room_id = 7, sender_username = ''AI'',
           msg_text = ''It is noon. Ask @AI again.'', created_at = 999\<rparr>]"
  by (simp add: example_send_simps del: remove_mention.simps)

section \<open>Disconnecting\<close>

text \<open>
  C9. When a connection closes, the handle is removed from \<open>sid_to_username\<close> whether
  it was there or not, nothing is raised, and the handle is in no room afterwards, so a
  broadcast to any room is not delivered to it. This stays so through every later
  sequence of events, handled one after another, in which the handle does not connect
  again: the handle has no session, so it cannot join a room. The removal from the
  session table is the handler \<open>disconnect\<close> of this code; the removal from the rooms
  is the server's, modelled as \<open>purge\<close>.
\<close>

theorem on_disconnect_removes_handle:
  "result (on_disconnect sid s) = Inr ()
   \<and> sid_to_username (final (on_disconnect sid s)) sid = None
   \<and> sid \<notin> sio_rooms (final (on_disconnect sid s)) r
   \<and> sid \<notin> delivered_to (final (on_disconnect sid s)) (Emit ev p (ToRoom r))
   \<and> (list_all (\<lambda>x. \<not> connects sid (snd x)) evs \<longrightarrow>
        sid_to_username (run evs (final (on_disconnect sid s))) sid = None
        \<and> sid \<notin> sio_rooms (run evs (final (on_disconnect sid s))) r
        \<and> sid \<notin> delivered_to (run evs (final (on_disconnect sid s))) (Emit ev p (ToRoom r)))"
proof -
  let ?s = "final (on_disconnect sid s)"
  have now: "sid_to_username ?s sid = None" and rooms: "\<forall>r. sid \<notin> sio_rooms ?s r"
    by (simp_all add: on_disconnect_frame)
  have later: "sid_to_username (run evs ?s) sid = None
        \<and> sid \<notin> sio_rooms (run evs ?s) r
        \<and> sid \<notin> delivered_to (run evs ?s) (Emit ev p (ToRoom r))"
    if "list_all (\<lambda>x. \<not> connects sid (snd x)) evs"
    using run_keeps_closed [OF now rooms that] by simp
  have "result (on_disconnect sid s) = Inr ()"
    by (simp add: on_disconnect_def disconnect_def Let_def)
  with now rooms later show ?thesis by simp
qed

theorem on_disconnect_removes_handle_witness:
  "''sid1'' \<in> sio_rooms
      (final (join_room example_env ''sid1'' (JObj [(''room_id'', example_room_id)])
                example_state))
      example_room_id
   \<and> list_all (\<lambda>x. \<not> connects ''sid1'' (snd x))
        [(example_env, JoinRoom ''sid1'' (JObj [(''room_id'', example_room_id)])),
         (example_env, SendMessage ''sid1'' example_send)]
   \<and> sid_to_username
        (run [(example_env, JoinRoom ''sid1'' (JObj [(''room_id'', example_room_id)])),
              (example_env, SendMessage ''sid1'' example_send)]
           (final (on_disconnect ''sid1''
              (final (join_room example_env ''sid1'' (JObj [(''room_id'', example_room_id)])
                        example_state)))))
        ''sid1'' = None
   \<and> ''sid1'' \<notin> sio_rooms
        (run [(example_env, JoinRoom ''sid1'' (JObj [(''room_id'', example_room_id)])),
              (example_env, SendMessage ''sid1'' example_send)]
           (final (on_disconnect ''sid1''
              (final (join_room example_env ''sid1'' (JObj [(''room_id'', example_room_id)])
                        example_state)))))
        example_room_id"
  using on_disconnect_removes_handle
          [of "''sid1''"
              "final (join_room example_env ''sid1'' (JObj [(''room_id'', example_room_id)])
                        example_state)"
              example_room_id "''new_message''" "ErrorPayload []"
              "[(example_env, JoinRoom ''sid1'' (JObj [(''room_id'', example_room_id)])),
                (example_env, SendMessage ''sid1'' example_send)]"]
  by (simp add: on_disconnect_def disconnect_def purge_def send_message_frame
        join_room_def emit_error_def parse_payload_def get_room_id_def find_room_def
        example_env_simps example_room_id_def example_db_def example_state_def Let_def)

section \<open>Payloads without fields\<close>




end
